theory Spec2Isabelle
  imports Complex_Main "HOL-Library.Word" "HOL-Library.Sublist"
begin

section \<open>Data model of the segment repairer\<close>

text \<open>
  The repairer (package \<open>repairer\<close>, \<open>SegmentRepairer.Repair\<close>) works on protobuf
  messages of \<open>storj.io/common/pb\<close>. Their 32-bit integer fields are \<open>32 word\<close>s read
  with \<open>sint\<close>; Go's platform \<open>int\<close> holds slice lengths and their differences, which
  cannot overflow, and is an \<open>int\<close>. Node identifiers, piece hashes, order limits and keys
  are opaque to the repairer and are natural-number tokens. A \<open>time.Time\<close> is its instant
  in nanoseconds after Go's zero time, so \<open>IsZero\<close> is equality with 0 and \<open>Before\<close> is
  \<open><\<close>. Messages behind the pointers the repairer dereferences are taken to be non-nil.
\<close>

type_synonym int32 = "32 word"
type_synonym path = string
type_synonym node_id = nat
type_synonym piece_hash = nat
type_synonym order_limits = nat
type_synonym time = int
type_synonym duration = int

record remote_piece =
  PieceNum :: int32
  NodeId :: node_id
  Hash :: piece_hash

record redundancy_scheme =
  MinReq :: int32
  Total :: int32
  RepairThreshold :: int32
  SuccessThreshold :: int32

record remote_segment =
  Redundancy :: redundancy_scheme
  RemotePieces :: "remote_piece list"

datatype pointer_type = Pointer_INLINE | Pointer_REMOTE

record pointer =
  Type :: pointer_type
  Remote :: remote_segment
  SegmentSize :: int
  CreationDate :: time
  ExpirationDate :: time
  LastRepaired :: time
  RepairCount :: int32

subsection \<open>Errors\<close>

text \<open>
  The error classes declared at the top of the file, the package's own class \<open>Error\<close>
  and \<open>storj.ErrObjectNotFound\<close>. \<open>ClassError c None\<close> is \<open>c.New(msg)\<close>,
  \<open>ClassError c (Some e)\<close> is \<open>c.Wrap(e)\<close> or \<open>c.New("...: %w", e)\<close>.
  \<open>ExternalError\<close> stands for any error value created inside a collaborator.
\<close>

datatype err_class =
    ErrObjectNotFound
  | metainfoGetError
  | metainfoPutError
  | invalidRepairError
  | overlayQueryError
  | orderLimitFailureError
  | repairReconstructError
  | repairPutError
  | Error

record irreparableError =
  ie_path :: path
  piecesAvailable :: int32
  piecesRequired :: int32
  segmentInfo :: "pointer option"

datatype error =
    ClassError err_class "error option"
  | Irreparable irreparableError
  | ExternalError nat
  | CombinedError error error

fun Has :: "err_class \<Rightarrow> error \<Rightarrow> bool" where
  "Has c (ClassError c' inner) =
     (c = c' \<or> (case inner of None \<Rightarrow> False | Some e \<Rightarrow> Has c e))"
| "Has c (Irreparable ie) = False"
| "Has c (ExternalError n) = False"
| "Has c (CombinedError e1 e2) = False"

text \<open>\<open>errs.Combine\<close>: nil arguments are dropped, a single error is returned as it is.\<close>

fun Combine :: "error option \<Rightarrow> error option \<Rightarrow> error option" where
  "Combine None None = None"
| "Combine (Some e) None = Some e"
| "Combine None (Some c) = Some c"
| "Combine (Some e) (Some c) = Some (CombinedError e c)"

subsection \<open>Time\<close>

text \<open>
  \<open>Time.Sub\<close> saturates at the ends of the 64-bit \<open>Duration\<close>; \<open>time.Since(t)\<close> is
  \<open>time.Now().Sub(t)\<close>, the clock reading being the first argument here.
\<close>

definition Sub :: "time \<Rightarrow> time \<Rightarrow> duration" where
  "Sub t u =
     (if t - u < - (2 ^ 63) then - (2 ^ 63)
      else if 2 ^ 63 - 1 < t - u then 2 ^ 63 - 1
      else t - u)"

definition Since :: "time \<Rightarrow> time \<Rightarrow> duration" where
  "Since now t = Sub now t"

subsection \<open>The repairer and its floating-point configuration\<close>

text \<open>
  \<open>multiplierOptimalThreshold\<close> is a \<open>float64\<close>. The repairer only moves such values
  through five operations, so the model is parametric in them: \<open>'f\<close> is the type of
  floats and a \<open>float64_ops\<close> gives the operations the code uses. Every statement below
  holds for each interpretation, IEEE binary64 among them.
\<close>

record 'f float64_ops =
  fzero :: 'f
  fone :: 'f
  fless :: "'f \<Rightarrow> 'f \<Rightarrow> bool"
  fadd :: "'f \<Rightarrow> 'f \<Rightarrow> 'f"
  fmul :: "'f \<Rightarrow> 'f \<Rightarrow> 'f"
  fceil :: "'f \<Rightarrow> 'f"
  float_of_int :: "int \<Rightarrow> 'f"
  int_of_float :: "'f \<Rightarrow> int"

record 'f SegmentRepairer =
  timeout :: duration
  multiplierOptimalThreshold :: 'f
  repairOverride :: int

definition NewSegmentRepairer ::
  "'f float64_ops \<Rightarrow> duration \<Rightarrow> 'f \<Rightarrow> int \<Rightarrow> 'f SegmentRepairer" where
  "NewSegmentRepairer ops tmo excessOptimalThreshold override =
     (let excess = (if fless ops excessOptimalThreshold (fzero ops) then fzero ops
                    else excessOptimalThreshold)
      in \<lparr> timeout = tmo,
           multiplierOptimalThreshold = fadd ops (fone ops) excess,
           repairOverride = override \<rparr>)"

section \<open>Collaborators\<close>

text \<open>
  Every call that leaves the repairer is recorded, with its arguments, in the order it is
  made; so are the monitoring marks. Log lines are not recorded. The float ratios given
  to \<open>mon.FloatVal\<close> are recorded by name only, and the segment age is recorded as the
  \<open>Duration\<close> itself (the code reports its whole seconds).
\<close>

datatype event =
    Meter string
  | IntVal string int
  | FloatVal string
  | SegmentAge string duration
  | MetainfoGet path
  | GetMissingPieces "remote_piece list"
  | CreateGetRepairOrderLimits path pointer "remote_piece list"
  | FindStorageNodesForRepair int "node_id list"
  | CreatePutRepairOrderLimits path pointer order_limits "node_id list"
  | ECGet order_limits path
  | BatchUpdateStats "node_id list"
  | ECRepair order_limits path
  | ReaderClose
  | UpdatePiecesCall path pointer "remote_piece list" "remote_piece list"

text \<open>
  The metadata store is state: a map from paths to pointers. The event log grows with
  every call.
\<close>

record world =
  db :: "path \<rightharpoonup> pointer"
  events :: "event list"

definition emit :: "event \<Rightarrow> world \<Rightarrow> world" where
  "emit e w = w\<lparr>events := events w @ [e]\<rparr>"

text \<open>
  What the collaborators answer during one attempt. Each is called at most once per
  attempt, so one answer per call describes it; the three clock readings are those of
  the expiry check, of \<open>time.Since\<close> and of the new \<open>LastRepaired\<close>.
  \<open>redundancyStrategy\<close> is the result of \<open>eestream.NewRedundancyStrategyFromProto\<close>:
  an error or a strategy, of which the repairer reads \<open>OptimalThreshold()\<close> only.
  \<open>SplitPath\<close> and \<open>JoinPaths\<close> are the path functions of package \<open>storj\<close>.
\<close>

record env =
  getFault :: "error option"
  nowExpiry :: time
  nowAge :: time
  nowCommit :: time
  redundancyStrategy :: "error + int"
  missingPieces :: "error + int32 list"
  getOrderLimits :: "error + order_limits"
  newNodes :: "error + node_id list"
  putOrderLimits :: "error + order_limits"
  ecGet :: "remote_piece list \<times> error option"
  batchUpdateStats :: "node_id list \<times> error option"
  ecRepair :: "node_id option list \<times> piece_hash list \<times> error option"
  readerClose :: "error option"
  updateFault :: "error option"
  SplitPath :: "path \<Rightarrow> string list"
  JoinPaths :: "string list \<Rightarrow> path"

text \<open>
  Modelled from the spec: \<open>metainfo.Service.Get\<close> is not part of the sources. The spec
  gives \<open>Get(path) \<rightarrow> (SegmentPointer, ErrNotFound | err)\<close>: a fault of the store, the
  not-found error for a path without pointer, or the stored pointer.
\<close>

definition metainfo_Get :: "env \<Rightarrow> path \<Rightarrow> world \<Rightarrow> (error + pointer) \<times> world" where
  "metainfo_Get en p w =
     (let w1 = emit (MetainfoGet p) w in
      case getFault en of
        Some e \<Rightarrow> (Inl e, w1)
      | None \<Rightarrow>
         (case db w p of
            None \<Rightarrow> (Inl (ClassError ErrObjectNotFound None), w1)
          | Some ptr \<Rightarrow> (Inr ptr, w1)))"

text \<open>
  Modelled from the spec: \<open>metainfo.Service.UpdatePieces\<close> is not part of the sources.
  The spec gives an atomic "append \<open>repaired\<close>, remove \<open>toRemove\<close>" change relative to
  the submitted pointer, a piece's identity being its number; a failed commit changes
  nothing.
\<close>

definition removePieces :: "remote_piece list \<Rightarrow> remote_piece list \<Rightarrow> remote_piece list" where
  "removePieces toRemove ps =
     filter (\<lambda>piece. PieceNum piece \<notin> set (map PieceNum toRemove)) ps"

definition committedPointer ::
  "pointer \<Rightarrow> remote_piece list \<Rightarrow> remote_piece list \<Rightarrow> pointer" where
  "committedPointer ref toAdd toRemove =
     ref\<lparr>Remote := (Remote ref)\<lparr>RemotePieces :=
            removePieces toRemove (RemotePieces (Remote ref)) @ toAdd\<rparr>\<rparr>"

definition metainfo_UpdatePieces ::
  "env \<Rightarrow> path \<Rightarrow> pointer \<Rightarrow> remote_piece list \<Rightarrow> remote_piece list \<Rightarrow> world
     \<Rightarrow> error option \<times> world" where
  "metainfo_UpdatePieces en p ref toAdd toRemove w =
     (let w1 = emit (UpdatePiecesCall p ref toAdd toRemove) w in
      case updateFault en of
        Some e \<Rightarrow> (Some e, w1)
      | None \<Rightarrow> (None, w1\<lparr>db := (db w1)(p \<mapsto> committedPointer ref toAdd toRemove)\<rparr>))"

section \<open>The helper functions of the file\<close>

text \<open>
  The three \<open>map[int32]bool\<close> of the file only ever store \<open>true\<close>, and a Go map
  answers \<open>false\<close> for an absent key: such a map is the set of its keys, \<open>m[k] = true\<close>
  is \<open>insert k m\<close> and a lookup \<open>m[k]\<close> is \<open>k \<in> m\<close>.

  \<open>sliceToSet\<close>, the loop from the set built so far:
\<close>

fun sliceToSet_from :: "int32 set \<Rightarrow> int32 list \<Rightarrow> int32 set" where
  "sliceToSet_from st [] = st"
| "sliceToSet_from st (v # vs) = sliceToSet_from (insert v st) vs"

definition sliceToSet :: "int32 list \<Rightarrow> int32 set" where
  "sliceToSet vs = sliceToSet_from {} vs"

definition createBucketID :: "env \<Rightarrow> path \<Rightarrow> error + path" where
  "createBucketID en p =
     (let comps = SplitPath en p in
      if length comps < 3 then Inl (ClassError Error None)
      else Inr (JoinPaths en [comps ! 0, comps ! 2]))"

text \<open>
  \<open>updateAuditFailStatus\<close>: one update request per node; the directory is called only
  when there is a request.
\<close>

definition updateAuditFailStatus ::
  "env \<Rightarrow> node_id list \<Rightarrow> world \<Rightarrow> (int \<times> error option) \<times> world" where
  "updateAuditFailStatus en failedAuditNodeIDs w =
     (if 0 < length failedAuditNodeIDs then
        (let w1 = emit (BatchUpdateStats failedAuditNodeIDs) w;
             failed = fst (batchUpdateStats en);
             err = snd (batchUpdateStats en)
         in if err \<noteq> None \<or> 0 < length failed
            then ((int (length failed), Combine (Some (ClassError Error None)) err), w1)
            else ((0, None), w1))
      else ((0, None), w))"

section \<open>Repair\<close>

text \<open>
  The loop of lines 173-181: every piece's node is excluded from selection; a piece is
  healthy unless its number is in the set of lost pieces.
\<close>

record partition =
  excludeNodeIDs :: "node_id list"
  healthyPieces :: "remote_piece list"
  unhealthyPieces :: "remote_piece list"
  healthyMap :: "int32 set"

fun partitionPieces ::
  "int32 set \<Rightarrow> partition \<Rightarrow> remote_piece list \<Rightarrow> partition" where
  "partitionPieces lostPiecesSet acc [] = acc"
| "partitionPieces lostPiecesSet acc (piece # pieces) =
     (let acc1 = acc\<lparr>excludeNodeIDs := excludeNodeIDs acc @ [NodeId piece]\<rparr> in
      if PieceNum piece \<notin> lostPiecesSet
      then partitionPieces lostPiecesSet
             (acc1\<lparr>healthyPieces := healthyPieces acc1 @ [piece],
                   healthyMap := insert (PieceNum piece) (healthyMap acc1)\<rparr>) pieces
      else partitionPieces lostPiecesSet
             (acc1\<lparr>unhealthyPieces := unhealthyPieces acc1 @ [piece]\<rparr>) pieces)"

definition emptyPartition :: partition where
  "emptyPartition =
     \<lparr> excludeNodeIDs = [], healthyPieces = [], unhealthyPieces = [],
       healthyMap = {} \<rparr>"

text \<open>
  The loop of lines 256-267 over \<open>successfulNodes\<close>, \<open>i\<close> being the index reached.
  A nil node is skipped; for any other the piece takes \<open>hashes[i]\<close>, and the index
  expression panics when \<open>hashes\<close> is too short: that is \<open>None\<close>.
\<close>

fun collectRepaired ::
  "nat \<Rightarrow> node_id option list \<Rightarrow> piece_hash list
     \<Rightarrow> remote_piece list \<times> int32 set
     \<Rightarrow> (remote_piece list \<times> int32 set) option" where
  "collectRepaired i [] hashes acc = Some acc"
| "collectRepaired i (None # nodes) hashes acc = collectRepaired (Suc i) nodes hashes acc"
| "collectRepaired i (Some nid # nodes) hashes (repairedPieces, repairedMap) =
     (if i < length hashes
      then collectRepaired (Suc i) nodes hashes
             (repairedPieces @ [\<lparr> PieceNum = word_of_nat i, NodeId = nid, Hash = hashes ! i \<rparr>],
              insert (word_of_nat i) repairedMap)
      else None)"

text \<open>The \<open>switch\<close> of lines 270-282: which of the three meters is marked.\<close>

definition classify :: "pointer \<Rightarrow> int32 \<Rightarrow> string" where
  "classify ptr healthyAfterRepair =
     (if sint healthyAfterRepair \<le> sint (RepairThreshold (Redundancy (Remote ptr)))
      then ''repair_failed''
      else if sint healthyAfterRepair < sint (SuccessThreshold (Redundancy (Remote ptr)))
      then ''repair_partial''
      else ''repair_success'')"

text \<open>
  Lines 290-306: all unhealthy pieces after a full repair, otherwise the unhealthy
  pieces whose number was repaired; then the pieces that failed hash verification.
\<close>

definition piecesToRemove ::
  "pointer \<Rightarrow> int32 \<Rightarrow> remote_piece list \<Rightarrow> int32 set \<Rightarrow> remote_piece list
     \<Rightarrow> remote_piece list" where
  "piecesToRemove ptr healthyAfterRepair unhealthy repairedMap failedPieces =
     (if sint (SuccessThreshold (Redundancy (Remote ptr))) \<le> sint healthyAfterRepair
      then unhealthy
      else filter (\<lambda>piece. PieceNum piece \<in> repairedMap) unhealthy) @ failedPieces"

text \<open>Lines 308-313.\<close>

definition segmentAge :: "time \<Rightarrow> pointer \<Rightarrow> duration" where
  "segmentAge now ptr =
     (if CreationDate ptr < LastRepaired ptr then Since now (LastRepaired ptr)
      else Since now (CreationDate ptr))"

datatype result = Returned bool "error option" | Panicked

text \<open>
  The deferred function installed after a successful download: whatever is returned
  afterwards, the reader is closed and its error joins the returned one.
\<close>

definition deferClose :: "env \<Rightarrow> result \<times> world \<Rightarrow> result \<times> world" where
  "deferClose en rw =
     (case rw of (res, w) \<Rightarrow>
        (case res of
           Returned shouldDelete err \<Rightarrow> Returned shouldDelete (Combine err (readerClose en))
         | Panicked \<Rightarrow> Panicked,
         emit ReaderClose w))"

text \<open>Lines 253-327: from the uploaded pieces to the commit.\<close>

definition commitRepair ::
  "env \<Rightarrow> path \<Rightarrow> pointer \<Rightarrow> partition \<Rightarrow> remote_piece list
     \<Rightarrow> node_id option list \<Rightarrow> piece_hash list \<Rightarrow> world \<Rightarrow> result \<times> world" where
  "commitRepair en p ptr part failedPieces successfulNodes hashes w =
     (case collectRepaired 0 successfulNodes hashes ([], {}) of
        None \<Rightarrow> (Panicked, w)
      | Some (repairedPieces, repairedMap) \<Rightarrow>
         (let healthyAfterRepair =
                (word_of_nat (length (healthyPieces part) + length repairedPieces) :: int32);
              w1 = emit (Meter (classify ptr healthyAfterRepair)) w;
              w2 = emit (FloatVal ''healthy_ratio_after_repair'') w1;
              toRemove = piecesToRemove ptr healthyAfterRepair (unhealthyPieces part)
                           repairedMap failedPieces;
              age = segmentAge (nowAge en) ptr;
              ptr1 = ptr\<lparr>LastRepaired := nowCommit en, RepairCount := RepairCount ptr + 1\<rparr>
          in case metainfo_UpdatePieces en p ptr1 repairedPieces toRemove w2 of
               (Some err, w3) \<Rightarrow> (Returned False (Some (ClassError metainfoPutError (Some err))), w3)
             | (None, w3) \<Rightarrow>
                 (Returned True None,
                  emit (IntVal ''segment_repair_count'' (sint (RepairCount ptr1)))
                    (emit (SegmentAge ''segment_time_until_repair'' age) w3))))"

text \<open>The block of lines 194-200.\<close>

definition requestCount ::
  "'f float64_ops \<Rightarrow> 'f SegmentRepairer \<Rightarrow> int \<Rightarrow> remote_piece list \<Rightarrow> int" where
  "requestCount ops repairer optimalThreshold healthy =
     (let totalNeeded = fceil ops (fmul ops (float_of_int ops optimalThreshold)
                                              (multiplierOptimalThreshold repairer))
      in int_of_float ops totalNeeded - int (length healthy))"

text \<open>Lines 164-251: partition, authorizations, node selection, download, upload.\<close>

definition repairSegment ::
  "'f float64_ops \<Rightarrow> env \<Rightarrow> 'f SegmentRepairer \<Rightarrow> path \<Rightarrow> pointer \<Rightarrow> int
     \<Rightarrow> remote_piece list \<Rightarrow> int32 list \<Rightarrow> world \<Rightarrow> result \<times> world" where
  "repairSegment ops en repairer p ptr optimalThreshold pieces missing w =
     (let w1 = emit (FloatVal ''healthy_ratio_before_repair'') w;
          lostPiecesSet = sliceToSet missing;
          part = partitionPieces lostPiecesSet emptyPartition pieces
      in case createBucketID en p of
           Inl err \<Rightarrow> (Returned True (Some (ClassError invalidRepairError (Some err))), w1)
         | Inr bucketID \<Rightarrow>
      (let w2 = emit (CreateGetRepairOrderLimits bucketID ptr (healthyPieces part)) w1 in
       case getOrderLimits en of
           Inl err \<Rightarrow> (Returned False (Some (ClassError orderLimitFailureError (Some err))), w2)
         | Inr getLimits \<Rightarrow>
      (let count = requestCount ops repairer optimalThreshold (healthyPieces part);
           w3 = emit (FindStorageNodesForRepair count (excludeNodeIDs part)) w2
       in case newNodes en of
           Inl err \<Rightarrow> (Returned False (Some (ClassError overlayQueryError (Some err))), w3)
         | Inr nodes \<Rightarrow>
      (let w4 = emit (CreatePutRepairOrderLimits bucketID ptr getLimits nodes) w3 in
       case putOrderLimits en of
           Inl err \<Rightarrow> (Returned False (Some (ClassError orderLimitFailureError (Some err))), w4)
         | Inr putLimits \<Rightarrow>
      (let w5 = emit (ECGet getLimits p) w4;
           failedPieces = fst (ecGet en);
           failedNodeIDs = map NodeId failedPieces;
           w6 = snd (updateAuditFailStatus en failedNodeIDs w5)
       in case snd (ecGet en) of
           Some (Irreparable irreparableErr) \<Rightarrow>
             (Returned True (Some (Irreparable (irreparableErr\<lparr>segmentInfo := Some ptr\<rparr>))),
              emit (Meter ''repair_too_many_nodes_failed'') w6)
         | Some err \<Rightarrow>
             (Returned True (Some (ClassError repairReconstructError (Some err))), w6)
         | None \<Rightarrow>
             deferClose en
               (let w7 = emit (ECRepair putLimits p) w6 in
                case ecRepair en of
                  (successfulNodes, hashes, Some err) \<Rightarrow>
                    (Returned False (Some (ClassError repairPutError (Some err))), w7)
                | (successfulNodes, hashes, None) \<Rightarrow>
                    commitRepair en p ptr part failedPieces successfulNodes hashes w7))))))"

text \<open>
  Lines 152-155: the repair threshold in force, the override (converted to
  \<open>int32\<close>) when it is not 0.
\<close>

definition effectiveRepairThreshold :: "'f SegmentRepairer \<Rightarrow> pointer \<Rightarrow> int32" where
  "effectiveRepairThreshold repairer ptr =
     (if repairOverride repairer \<noteq> 0 then word_of_int (repairOverride repairer)
      else RepairThreshold (Redundancy (Remote ptr)))"

text \<open>Line 140.\<close>

definition numHealthy :: "remote_piece list \<Rightarrow> int32 list \<Rightarrow> int" where
  "numHealthy pieces missing = int (length pieces) - int (length missing)"

text \<open>Lines 140-162 and what follows them.\<close>

definition checkHealth ::
  "'f float64_ops \<Rightarrow> env \<Rightarrow> 'f SegmentRepairer \<Rightarrow> path \<Rightarrow> pointer \<Rightarrow> int
     \<Rightarrow> remote_piece list \<Rightarrow> int32 list \<Rightarrow> world \<Rightarrow> result \<times> world" where
  "checkHealth ops en repairer p ptr optimalThreshold pieces missing w =
     (let n = numHealthy pieces missing in
      if sint (word_of_int n :: int32) < sint (MinReq (Redundancy (Remote ptr)))
      then (Returned True (Some (Irreparable
              \<lparr> ie_path = p,
                piecesAvailable = word_of_int n,
                piecesRequired = MinReq (Redundancy (Remote ptr)),
                segmentInfo = Some ptr \<rparr>)),
            emit (Meter ''repair_nodes_unavailable'') w)
      else if sint (effectiveRepairThreshold repairer ptr) < sint (word_of_int n :: int32)
      then (Returned True None, emit (Meter ''repair_unnecessary'') w)
      else repairSegment ops en repairer p ptr optimalThreshold pieces missing w)"

definition Repair ::
  "'f float64_ops \<Rightarrow> env \<Rightarrow> 'f SegmentRepairer \<Rightarrow> path \<Rightarrow> world \<Rightarrow> result \<times> world" where
  "Repair ops en repairer p w =
     (case metainfo_Get en p w of
        (Inl err, w1) \<Rightarrow>
          (if Has ErrObjectNotFound err
           then (Returned True None,
                 emit (Meter ''segment_deleted_before_repair'')
                   (emit (Meter ''repair_unnecessary'') w1))
           else (Returned False (Some (ClassError metainfoGetError (Some err))), w1))
      | (Inr ptr, w1) \<Rightarrow>
          if Type ptr \<noteq> Pointer_REMOTE
          then (Returned True (Some (ClassError invalidRepairError None)), w1)
          else if ExpirationDate ptr \<noteq> 0 \<and> ExpirationDate ptr < nowExpiry en
          then (Returned True None, emit (Meter ''repair_expired'') w1)
          else
            (let w2 = emit (IntVal ''repair_segment_size'' (SegmentSize ptr))
                        (emit (Meter ''repair_attempts'') w1)
             in case redundancyStrategy en of
                  Inl err \<Rightarrow> (Returned True (Some (ClassError invalidRepairError (Some err))), w2)
                | Inr optimalThreshold \<Rightarrow>
                    (let pieces = RemotePieces (Remote ptr);
                         w3 = emit (GetMissingPieces pieces) w2
                     in case missingPieces en of
                          Inl err \<Rightarrow>
                            (Returned False (Some (ClassError overlayQueryError (Some err))), w3)
                        | Inr missing \<Rightarrow>
                            checkHealth ops en repairer p ptr optimalThreshold pieces missing w3)))"

section \<open>How far an attempt gets\<close>

text \<open>
  The claims speak of attempts that reach a given step. These predicates say which
  answers of the collaborators take an attempt there.

  \<open>admitted\<close>: the pointer is fetched, is a remote segment, has not expired, its
  redundancy strategy is valid and the directory answers the missing-piece query.
\<close>

definition admitted :: "env \<Rightarrow> world \<Rightarrow> path \<Rightarrow> pointer \<Rightarrow> int \<Rightarrow> int32 list \<Rightarrow> bool" where
  "admitted en w p ptr optimalThreshold missing \<longleftrightarrow>
     getFault en = None \<and> db w p = Some ptr \<and> Type ptr = Pointer_REMOTE \<and>
     \<not> (ExpirationDate ptr \<noteq> 0 \<and> ExpirationDate ptr < nowExpiry en) \<and>
     redundancyStrategy en = Inr optimalThreshold \<and> missingPieces en = Inr missing"

text \<open>The world after the fetch and the missing-piece query.\<close>

definition queried :: "path \<Rightarrow> pointer \<Rightarrow> world \<Rightarrow> world" where
  "queried p ptr w =
     emit (GetMissingPieces (RemotePieces (Remote ptr)))
       (emit (IntVal ''repair_segment_size'' (SegmentSize ptr))
          (emit (Meter ''repair_attempts'')
             (emit (MetainfoGet p) w)))"

text \<open>\<open>needsRepair\<close>: neither of the two early returns of lines 142 and 158 is taken.\<close>

definition needsRepair :: "'f SegmentRepairer \<Rightarrow> pointer \<Rightarrow> int32 list \<Rightarrow> bool" where
  "needsRepair repairer ptr missing \<longleftrightarrow>
     (let n = (word_of_int (numHealthy (RemotePieces (Remote ptr)) missing) :: int32) in
      \<not> sint n < sint (MinReq (Redundancy (Remote ptr))) \<and>
      \<not> sint (effectiveRepairThreshold repairer ptr) < sint n)"

text \<open>\<open>authorized\<close>: the scope is derived, both authorizations and the new nodes are granted.\<close>

definition authorized ::
  "env \<Rightarrow> path \<Rightarrow> path \<Rightarrow> order_limits \<Rightarrow> node_id list \<Rightarrow> order_limits \<Rightarrow> bool" where
  "authorized en p bucketID getLimits nodes putLimits \<longleftrightarrow>
     createBucketID en p = Inr bucketID \<and> getOrderLimits en = Inr getLimits \<and>
     newNodes en = Inr nodes \<and> putOrderLimits en = Inr putLimits"

text \<open>
  \<open>transferred\<close>: download and upload succeed and every uploaded node has its hash;
  \<open>repairedPieces\<close> and \<open>repairedMap\<close> are what the loop of lines 256-267 builds.
\<close>

definition transferred ::
  "env \<Rightarrow> node_id option list \<Rightarrow> piece_hash list \<Rightarrow> remote_piece list \<Rightarrow> int32 set \<Rightarrow> bool" where
  "transferred en successfulNodes hashes repairedPieces repairedMap \<longleftrightarrow>
     snd (ecGet en) = None \<and> ecRepair en = (successfulNodes, hashes, None) \<and>
     collectRepaired 0 successfulNodes hashes ([], {}) = Some (repairedPieces, repairedMap)"

text \<open>
  The world in which the commit stage starts: the log holds every call up to the upload.
\<close>

definition uploading ::
  "'f float64_ops \<Rightarrow> env \<Rightarrow> 'f SegmentRepairer \<Rightarrow> path \<Rightarrow> pointer \<Rightarrow> int \<Rightarrow> int32 list
     \<Rightarrow> path \<Rightarrow> order_limits \<Rightarrow> node_id list \<Rightarrow> order_limits \<Rightarrow> world \<Rightarrow> world" where
  "uploading ops en repairer p ptr optimalThreshold missing bucketID getLimits nodes putLimits w =
     (let part = partitionPieces (sliceToSet missing) emptyPartition (RemotePieces (Remote ptr))
      in emit (ECRepair putLimits p)
          (snd (updateAuditFailStatus en (map NodeId (fst (ecGet en)))
            (emit (ECGet getLimits p)
              (emit (CreatePutRepairOrderLimits bucketID ptr getLimits nodes)
                (emit (FindStorageNodesForRepair
                         (requestCount ops repairer optimalThreshold (healthyPieces part))
                         (excludeNodeIDs part))
                  (emit (CreateGetRepairOrderLimits bucketID ptr (healthyPieces part))
                    (emit (FloatVal ''healthy_ratio_before_repair'')
                      (queried p ptr w)))))))))"

text \<open>The events an attempt adds to the log.\<close>

definition newEvents :: "world \<Rightarrow> world \<Rightarrow> event list" where
  "newEvents w w' = drop (length (events w)) (events w')"

text \<open>
  Kinds of events: calls to a collaborator (all but the monitoring marks), the request
  for replacement nodes, the pointer commit. An attempt ends in a successful commit when
  it calls \<open>UpdatePieces\<close> and the store accepts.
\<close>

fun collaboratorCall :: "event \<Rightarrow> bool" where
  "collaboratorCall (Meter name) = False"
| "collaboratorCall (IntVal name v) = False"
| "collaboratorCall (FloatVal name) = False"
| "collaboratorCall (SegmentAge name d) = False"
| "collaboratorCall e = True"

fun isNodeRequest :: "event \<Rightarrow> bool" where
  "isNodeRequest (FindStorageNodesForRepair n excluded) = True"
| "isNodeRequest e = False"

fun isCommit :: "event \<Rightarrow> bool" where
  "isCommit (UpdatePiecesCall p ptr toAdd toRemove) = True"
| "isCommit e = False"

definition committed :: "env \<Rightarrow> world \<Rightarrow> world \<Rightarrow> bool" where
  "committed en w w' \<longleftrightarrow> updateFault en = None \<and> list_ex isCommit (newEvents w w')"


text \<open>What \<open>updateAuditFailStatus\<close> adds to the log for the given failed nodes.\<close>

definition auditEvents :: "node_id list \<Rightarrow> event list" where
  "auditEvents ids = (if ids = [] then [] else [BatchUpdateStats ids])"

text \<open>The pieces of a pointer that the directory does not report missing, and the others.\<close>

definition healthyOf :: "pointer \<Rightarrow> int32 list \<Rightarrow> remote_piece list" where
  "healthyOf ptr missing =
     filter (\<lambda>piece. PieceNum piece \<notin> set missing) (RemotePieces (Remote ptr))"

definition unhealthyOf :: "pointer \<Rightarrow> int32 list \<Rightarrow> remote_piece list" where
  "unhealthyOf ptr missing =
     filter (\<lambda>piece. PieceNum piece \<in> set missing) (RemotePieces (Remote ptr))"

section \<open>Worked examples\<close>

text \<open>
  The scenarios of the specification: the scheme with minimum 3, repair threshold 5,
  success threshold 7 and 10 pieces in total, one piece per number.
  The examples interpret floats by exact rational arithmetic, which is what binary64
  computes on the small dyadic values used here; \<open>int(f)\<close> truncates towards zero.
  Paths are split and joined at \<open>/\<close>.
\<close>

definition exactOps :: "rat float64_ops" where
  "exactOps =
     \<lparr> fzero = 0, fone = 1, fless = (\<lambda>x y. x < y), fadd = (\<lambda>x y. x + y),
       fmul = (\<lambda>x y. x * y), fceil = (\<lambda>x. of_int \<lceil>x\<rceil>),
       float_of_int = (\<lambda>k. of_int k),
       int_of_float = (\<lambda>x. if 0 \<le> x then \<lfloor>x\<rfloor> else \<lceil>x\<rceil>) \<rparr>"

fun splitSlash :: "string \<Rightarrow> string list" where
  "splitSlash [] = [Nil]"
| "splitSlash (c # cs) =
     (if c = CHR ''/'' then [] # splitSlash cs
      else (case splitSlash cs of
              [] \<Rightarrow> [c # Nil]
            | x # xs \<Rightarrow> (c # x) # xs))"

fun joinSlash :: "string list \<Rightarrow> string" where
  "joinSlash [] = []"
| "joinSlash [x] = x"
| "joinSlash (x # xs) = x @ ''/'' @ joinSlash xs"

definition exampleScheme :: redundancy_scheme where
  "exampleScheme = \<lparr> MinReq = 3, Total = 10, RepairThreshold = 5, SuccessThreshold = 7 \<rparr>"

definition examplePiece :: "nat \<Rightarrow> remote_piece" where
  "examplePiece i = \<lparr> PieceNum = word_of_nat i, NodeId = 100 + i, Hash = 200 + i \<rparr>"

definition examplePointer :: pointer where
  "examplePointer =
     \<lparr> Type = Pointer_REMOTE,
       Remote = \<lparr> Redundancy = exampleScheme,
                  RemotePieces = map examplePiece [0, 1, 2, 3, 4, 5, 6, 7, 8, 9] \<rparr>,
       SegmentSize = 1024, CreationDate = 1000, ExpirationDate = 0,
       LastRepaired = 2000, RepairCount = 1 \<rparr>"

definition examplePath :: path where
  "examplePath = ''prj/s0/bkt/obj''"

definition exampleWorld :: "pointer \<Rightarrow> world" where
  "exampleWorld ptr = \<lparr> db = [examplePath \<mapsto> ptr], events = [] \<rparr>"

text \<open>
  An attempt in which every collaborator succeeds: \<open>missing\<close> is the directory's answer,
  \<open>uploads\<close> the per-index result of the upload, \<open>failed\<close> the pieces that failed
  verification during the download.
\<close>

definition exampleEnv ::
  "int32 list \<Rightarrow> remote_piece list \<Rightarrow> node_id option list \<Rightarrow> env" where
  "exampleEnv missing failed uploads =
     \<lparr> getFault = None, nowExpiry = 5000, nowAge = 5000, nowCommit = 6000,
       redundancyStrategy = Inr 7, missingPieces = Inr missing,
       getOrderLimits = Inr 1, newNodes = Inr [300, 301, 302], putOrderLimits = Inr 2,
       ecGet = (failed, None), batchUpdateStats = ([], None),
       ecRepair = (uploads, map (\<lambda>nd. 400) uploads, None),
       readerClose = None, updateFault = None,
       SplitPath = splitSlash, JoinPaths = joinSlash \<rparr>"

definition exampleRepairer :: "rat SegmentRepairer" where
  "exampleRepairer = NewSegmentRepairer exactOps 0 (1 / 2) 0"

text \<open>
  Scenario C of the specification: six pieces missing, three replacement uploads succeed,
  at the numbers 4, 5 and 6. Scenario D: only the upload at number 4 succeeds.
  Scenario A: four pieces missing.
\<close>

definition missingC :: "int32 list" where
  "missingC = [4, 5, 6, 7, 8, 9]"

definition uploadsC :: "node_id option list" where
  "uploadsC = [None, None, None, None, Some 300, Some 301, Some 302]"

definition hashesC :: "piece_hash list" where
  "hashesC = [400, 400, 400, 400, 400, 400, 400]"

definition repairedC :: "remote_piece list" where
  "repairedC =
     [\<lparr> PieceNum = 4, NodeId = 300, Hash = 400 \<rparr>,
      \<lparr> PieceNum = 5, NodeId = 301, Hash = 400 \<rparr>,
      \<lparr> PieceNum = 6, NodeId = 302, Hash = 400 \<rparr>]"

definition scenarioC :: env where
  "scenarioC = exampleEnv missingC [] uploadsC"

definition uploadsD :: "node_id option list" where
  "uploadsD = [None, None, None, None, Some 300]"

definition hashesD :: "piece_hash list" where
  "hashesD = [400, 400, 400, 400, 400]"

definition repairedD :: "remote_piece list" where
  "repairedD = [\<lparr> PieceNum = 4, NodeId = 300, Hash = 400 \<rparr>]"

definition scenarioA :: env where
  "scenarioA = exampleEnv [6, 7, 8, 9] [] []"

definition scenarioD :: env where
  "scenarioD = exampleEnv missingC [] uploadsD"




definition irreparableDownload :: env where
  "irreparableDownload =
     scenarioC\<lparr>ecGet := ([], Some (Irreparable
       \<lparr> ie_path = examplePath, piecesAvailable = 2, piecesRequired = 3,
         segmentInfo = None \<rparr>))\<rparr>"

definition brokenDownload :: env where
  "brokenDownload = scenarioC\<lparr>ecGet := ([], Some (ExternalError 7))\<rparr>"

definition brokenUpload :: env where
  "brokenUpload = scenarioC\<lparr>ecRepair := ([], [], Some (ExternalError 8))\<rparr>"

definition wrapPointer :: pointer where
  "wrapPointer = examplePointer\<lparr>RepairCount := 2147483647\<rparr>"

definition shortPath :: path where
  "shortPath = ''prj/s0''"

definition shortWorld :: world where
  "shortWorld = \<lparr> db = [shortPath \<mapsto> examplePointer], events = [] \<rparr>"

section \<open>Facts about the stages\<close>

lemma sint_int32_of_int:
  "- (2 ^ 31) \<le> n \<Longrightarrow> n < 2 ^ 31 \<Longrightarrow> sint (word_of_int n :: int32) = n"
  by (simp add: sint_sbintrunc' signed_take_bit_int_eq_self)

lemma sint_int32_bounds: "- (2 ^ 31) \<le> sint (x :: int32) \<and> sint x < 2 ^ 31"
  using sint_range_size [of x] by (simp add: word_size)

lemma events_emit [simp]: "events (emit e w) = events w @ [e]"
  by (simp add: emit_def)

lemma db_emit [simp]: "db (emit e w) = db w"
  by (simp add: emit_def)

lemma newEvents_append [simp]: "newEvents w (w'\<lparr>events := events w @ evs\<rparr>) = evs"
  by (simp add: newEvents_def)

lemma events_queried:
  "events (queried p ptr w) =
     events w @ [MetainfoGet p, Meter ''repair_attempts'',
                 IntVal ''repair_segment_size'' (SegmentSize ptr),
                 GetMissingPieces (RemotePieces (Remote ptr))]"
  by (simp add: queried_def)

lemma db_queried [simp]: "db (queried p ptr w) = db w"
  by (simp add: queried_def)

lemma Repair_admitted:
  assumes "admitted en w p ptr optimal missing"
  shows "Repair ops en repairer p w =
           checkHealth ops en repairer p ptr optimal (RemotePieces (Remote ptr)) missing
             (queried p ptr w)"
  using assms
  by (auto simp add: admitted_def Repair_def metainfo_Get_def queried_def Let_def)

lemma checkHealth_needsRepair:
  assumes "needsRepair repairer ptr missing"
  shows "checkHealth ops en repairer p ptr optimal (RemotePieces (Remote ptr)) missing w =
           repairSegment ops en repairer p ptr optimal (RemotePieces (Remote ptr)) missing w"
  using assms by (simp add: needsRepair_def checkHealth_def Let_def)

lemma sliceToSet_from_eq: "sliceToSet_from st vs = st \<union> set vs"
  by (induction vs arbitrary: st) auto

lemma sliceToSet_eq [simp]: "sliceToSet vs = set vs"
  by (simp add: sliceToSet_def sliceToSet_from_eq)

lemma excludeNodeIDs_partitionPieces:
  "excludeNodeIDs (partitionPieces lost acc ps) = excludeNodeIDs acc @ map NodeId ps"
  by (induction ps arbitrary: acc) (simp_all add: Let_def)

lemma healthyPieces_partitionPieces:
  "healthyPieces (partitionPieces lost acc ps) =
     healthyPieces acc @ filter (\<lambda>piece. PieceNum piece \<notin> lost) ps"
  by (induction ps arbitrary: acc) (simp_all add: Let_def)

lemma unhealthyPieces_partitionPieces:
  "unhealthyPieces (partitionPieces lost acc ps) =
     unhealthyPieces acc @ filter (\<lambda>piece. PieceNum piece \<in> lost) ps"
  by (induction ps arbitrary: acc) (simp_all add: Let_def)

lemma partition_of_pointer [simp]:
  "excludeNodeIDs (partitionPieces (set missing) emptyPartition (RemotePieces (Remote ptr)))
     = map NodeId (RemotePieces (Remote ptr))"
  "healthyPieces (partitionPieces (set missing) emptyPartition (RemotePieces (Remote ptr)))
     = healthyOf ptr missing"
  "unhealthyPieces (partitionPieces (set missing) emptyPartition (RemotePieces (Remote ptr)))
     = unhealthyOf ptr missing"
  by (simp_all add: excludeNodeIDs_partitionPieces healthyPieces_partitionPieces
        unhealthyPieces_partitionPieces emptyPartition_def healthyOf_def unhealthyOf_def)

lemma collectRepaired_keys:
  "collectRepaired i nodes hashes acc = Some acc' \<Longrightarrow>
     snd acc = PieceNum ` set (fst acc) \<Longrightarrow> snd acc' = PieceNum ` set (fst acc')"
proof (induction i nodes hashes acc rule: collectRepaired.induct)
  case (1 i hashes acc)
  then show ?case by simp
next
  case (2 i nodes hashes acc)
  then show ?case by simp
next
  case (3 i nid nodes hashes repairedPieces repairedMap)
  then show ?case by (auto split: if_splits)
qed

lemma collectRepaired_map:
  "collectRepaired 0 nodes hashes ([], {}) = Some (rp, rm) \<Longrightarrow> rm = PieceNum ` set rp"
  using collectRepaired_keys [of 0 nodes hashes "([], {})" "(rp, rm)"] by simp

lemma Combine_None [simp]: "Combine None c = c"
  by (cases c) simp_all

lemma Combine_Some_neq_None [simp]: "Combine (Some e) c \<noteq> None"
  by (cases c) simp_all

lemma db_updateAuditFailStatus [simp]:
  "db (snd (updateAuditFailStatus en ids w)) = db w"
  by (simp add: updateAuditFailStatus_def Let_def)

lemma events_updateAuditFailStatus [simp]:
  "events (snd (updateAuditFailStatus en ids w)) = events w @ auditEvents ids"
  by (simp add: updateAuditFailStatus_def Let_def auditEvents_def)

lemma fst_deferClose:
  "fst (deferClose en (Returned d e, w)) = Returned d (Combine e (readerClose en))"
  "fst (deferClose en (Panicked, w)) = Panicked"
  by (simp_all add: deferClose_def)

lemma snd_deferClose [simp]:
  "db (snd (deferClose en rw)) = db (snd rw)"
  "events (snd (deferClose en rw)) = events (snd rw) @ [ReaderClose]"
  by (simp_all add: deferClose_def split: prod.splits)

lemma db_uploading [simp]:
  "db (uploading ops en repairer p ptr optimal missing bucketID getLimits nodes putLimits w) = db w"
  by (simp add: uploading_def Let_def)

lemma events_uploading:
  "events (uploading ops en repairer p ptr optimal missing bucketID getLimits nodes putLimits w) =
     events w @
       [MetainfoGet p, Meter ''repair_attempts'',
        IntVal ''repair_segment_size'' (SegmentSize ptr),
        GetMissingPieces (RemotePieces (Remote ptr)),
        FloatVal ''healthy_ratio_before_repair'',
        CreateGetRepairOrderLimits bucketID ptr (healthyOf ptr missing),
        FindStorageNodesForRepair
          (requestCount ops repairer optimal (healthyOf ptr missing))
          (map NodeId (RemotePieces (Remote ptr))),
        CreatePutRepairOrderLimits bucketID ptr getLimits nodes,
        ECGet getLimits p]
       @ auditEvents (map NodeId (fst (ecGet en))) @ [ECRepair putLimits p]"
  by (simp add: uploading_def Let_def events_queried)

lemma Repair_reaches_commit:
  assumes adm: "admitted en w p ptr optimal missing"
    and nr: "needsRepair repairer ptr missing"
    and auth: "authorized en p bucketID getLimits nodes putLimits"
    and tr: "transferred en successfulNodes hashes rp rm"
  shows "Repair ops en repairer p w =
           deferClose en
             (commitRepair en p ptr
                (partitionPieces (sliceToSet missing) emptyPartition (RemotePieces (Remote ptr)))
                (fst (ecGet en)) successfulNodes hashes
                (uploading ops en repairer p ptr optimal missing bucketID getLimits nodes
                   putLimits w))"
  using auth tr
  by (simp add: Repair_admitted [OF adm] checkHealth_needsRepair [OF nr] repairSegment_def
        authorized_def transferred_def uploading_def Let_def)

lemma commitRepair_collected:
  assumes "collectRepaired 0 successfulNodes hashes ([], {}) = Some (rp, rm)"
  shows "commitRepair en p ptr part failed successfulNodes hashes w =
    (let h = (word_of_nat (length (healthyPieces part) + length rp) :: int32);
         toRemove = piecesToRemove ptr h (unhealthyPieces part) rm failed;
         ptr1 = ptr\<lparr>LastRepaired := nowCommit en, RepairCount := RepairCount ptr + 1\<rparr>;
         evs = [Meter (classify ptr h), FloatVal ''healthy_ratio_after_repair'',
                UpdatePiecesCall p ptr1 rp toRemove]
     in case updateFault en of
          Some err \<Rightarrow>
            (Returned False (Some (ClassError metainfoPutError (Some err))),
             w\<lparr>events := events w @ evs\<rparr>)
        | None \<Rightarrow>
            (Returned True None,
             w\<lparr>db := (db w)(p \<mapsto> committedPointer ptr1 rp toRemove),
               events := events w @ evs @
                 [SegmentAge ''segment_time_until_repair'' (segmentAge (nowAge en) ptr),
                  IntVal ''segment_repair_count'' (sint (RepairCount ptr1))]\<rparr>))"
  using assms
  by (simp add: commitRepair_def metainfo_UpdatePieces_def Let_def emit_def split: option.splits)

lemma list_ex_auditEvents [simp]:
  "filter isCommit (auditEvents ids) = []" "filter isNodeRequest (auditEvents ids) = []"
  by (simp_all add: auditEvents_def)

lemma prefix_emit [intro]: "prefix xs (events w) \<Longrightarrow> prefix xs (events (emit e w))"
  by simp

lemma prefix_updateAuditFailStatus [intro]:
  "prefix xs (events w) \<Longrightarrow> prefix xs (events (snd (updateAuditFailStatus en ids w)))"
  by simp

lemma prefix_commitRepair:
  "prefix xs (events w) \<Longrightarrow>
     prefix xs (events (snd (commitRepair en p ptr part failed nodes hashes w)))"
  by (auto simp add: commitRepair_def metainfo_UpdatePieces_def Let_def
        split: option.splits prod.splits)

lemma prefix_repairSegment:
  "prefix xs (events w) \<Longrightarrow>
     prefix xs (events (snd (repairSegment ops en repairer p ptr optimal pieces missing w)))"
  by (auto simp add: repairSegment_def Let_def intro!: prefix_commitRepair
        split: sum.splits option.splits error.splits prod.splits)

lemma prefix_checkHealth:
  "prefix xs (events w) \<Longrightarrow>
     prefix xs (events (snd (checkHealth ops en repairer p ptr optimal pieces missing w)))"
  by (auto simp add: checkHealth_def Let_def intro!: prefix_repairSegment)

lemma prefix_Repair: "prefix (events w) (events (snd (Repair ops en repairer p w)))"
  by (auto simp add: Repair_def metainfo_Get_def Let_def intro!: prefix_checkHealth
        split: sum.splits option.splits prod.splits)

lemma events_Repair:
  "events (snd (Repair ops en repairer p w)) =
     events w @ newEvents w (snd (Repair ops en repairer p w))"
  using prefix_Repair [of w ops en repairer p] by (auto simp add: prefix_def newEvents_def)

lemma newEvents_eq: "events w' = events w @ evs \<Longrightarrow> newEvents w w' = evs"
  by (simp add: newEvents_def)

lemma Repair_commit_result:
  assumes adm: "admitted en w p ptr optimal missing"
    and nr: "needsRepair repairer ptr missing"
    and auth: "authorized en p bucketID getLimits nodes putLimits"
    and tr: "transferred en successfulNodes hashes rp rm"
  shows "fst (Repair ops en repairer p w) =
           (case updateFault en of
              None \<Rightarrow> Returned True (readerClose en)
            | Some err \<Rightarrow>
                Returned False
                  (Combine (Some (ClassError metainfoPutError (Some err))) (readerClose en)))"
proof -
  have c: "collectRepaired 0 successfulNodes hashes ([], {}) = Some (rp, rm)"
    using tr by (simp add: transferred_def)
  show ?thesis
    by (simp add: Repair_reaches_commit [OF adm nr auth tr] commitRepair_collected [OF c]
          Let_def deferClose_def split: option.splits)
qed

lemma Repair_commit_db:
  assumes adm: "admitted en w p ptr optimal missing"
    and nr: "needsRepair repairer ptr missing"
    and auth: "authorized en p bucketID getLimits nodes putLimits"
    and tr: "transferred en successfulNodes hashes rp rm"
  shows "db (snd (Repair ops en repairer p w)) =
           (case updateFault en of
              None \<Rightarrow>
                (db w)(p \<mapsto> committedPointer
                   (ptr\<lparr>LastRepaired := nowCommit en, RepairCount := RepairCount ptr + 1\<rparr>) rp
                   (piecesToRemove ptr
                      (word_of_nat (length (healthyOf ptr missing) + length rp))
                      (unhealthyOf ptr missing) (PieceNum ` set rp) (fst (ecGet en))))
            | Some err \<Rightarrow> db w)"
proof -
  have c: "collectRepaired 0 successfulNodes hashes ([], {}) = Some (rp, rm)"
    using tr by (simp add: transferred_def)
  have rm: "rm = PieceNum ` set rp"
    using c by (rule collectRepaired_map)
  show ?thesis
    by (simp add: Repair_reaches_commit [OF adm nr auth tr] commitRepair_collected [OF c]
          Let_def rm split: option.splits)
qed

lemma Repair_commit_events:
  assumes adm: "admitted en w p ptr optimal missing"
    and nr: "needsRepair repairer ptr missing"
    and auth: "authorized en p bucketID getLimits nodes putLimits"
    and tr: "transferred en successfulNodes hashes rp rm"
  shows "newEvents w (snd (Repair ops en repairer p w)) =
       [MetainfoGet p, Meter ''repair_attempts'',
        IntVal ''repair_segment_size'' (SegmentSize ptr),
        GetMissingPieces (RemotePieces (Remote ptr)),
        FloatVal ''healthy_ratio_before_repair'',
        CreateGetRepairOrderLimits bucketID ptr (healthyOf ptr missing),
        FindStorageNodesForRepair
          (requestCount ops repairer optimal (healthyOf ptr missing))
          (map NodeId (RemotePieces (Remote ptr))),
        CreatePutRepairOrderLimits bucketID ptr getLimits nodes,
        ECGet getLimits p]
       @ auditEvents (map NodeId (fst (ecGet en)))
       @ [ECRepair putLimits p,
          Meter (classify ptr (word_of_nat (length (healthyOf ptr missing) + length rp))),
          FloatVal ''healthy_ratio_after_repair'',
          UpdatePiecesCall p
            (ptr\<lparr>LastRepaired := nowCommit en, RepairCount := RepairCount ptr + 1\<rparr>) rp
            (piecesToRemove ptr
               (word_of_nat (length (healthyOf ptr missing) + length rp))
               (unhealthyOf ptr missing) (PieceNum ` set rp) (fst (ecGet en)))]
       @ (case updateFault en of
            None \<Rightarrow>
              [SegmentAge ''segment_time_until_repair'' (segmentAge (nowAge en) ptr),
               IntVal ''segment_repair_count'' (sint (RepairCount ptr + 1))]
          | Some err \<Rightarrow> [])
       @ [ReaderClose]"
proof -
  have c: "collectRepaired 0 successfulNodes hashes ([], {}) = Some (rp, rm)"
    using tr by (simp add: transferred_def)
  have rm: "rm = PieceNum ` set rp"
    using c by (rule collectRepaired_map)
  show ?thesis
    by (rule newEvents_eq)
       (simp add: Repair_reaches_commit [OF adm nr auth tr] commitRepair_collected [OF c]
          Let_def rm events_uploading split: option.splits)
qed

lemma classify_failed:
  "sint h \<le> sint (RepairThreshold (Redundancy (Remote ptr))) \<Longrightarrow> classify ptr h = ''repair_failed''"
  by (simp add: classify_def)



lemma nodeRequest_commitRepair [simp]:
  "filter isNodeRequest (events (snd (commitRepair en p ptr part failed nodes hashes w)))
     = filter isNodeRequest (events w)"
  by (auto simp add: commitRepair_def metainfo_UpdatePieces_def Let_def
        split: option.splits prod.splits)


lemma sint_int32_succ:
  "sint (x :: int32) < 2 ^ 31 - 1 \<Longrightarrow> sint (x + 1) = sint x + 1"
  using sint_int32_bounds [of x]
  by (simp add: sint_word_ariths signed_take_bit_int_eq_self)

lemma commitRepair_store:
  "(db (snd (commitRepair en p ptr part failed nodes hashes w)) = db w
      \<and> (updateFault en = None \<longrightarrow>
           filter isCommit (events (snd (commitRepair en p ptr part failed nodes hashes w)))
             = filter isCommit (events w)))
   \<or> (updateFault en = None
       \<and> (\<exists>rp rm. collectRepaired 0 nodes hashes ([], {}) = Some (rp, rm)))"
  by (auto simp add: commitRepair_def metainfo_UpdatePieces_def Let_def
        split: option.splits prod.splits)

lemma repairSegment_store:
  "(db (snd (repairSegment ops en repairer p ptr optimal pieces missing w)) = db w
      \<and> (updateFault en = None \<longrightarrow>
           filter isCommit
             (events (snd (repairSegment ops en repairer p ptr optimal pieces missing w)))
             = filter isCommit (events w)))
   \<or> (updateFault en = None
       \<and> (\<exists>bucketID getLimits nodes putLimits sn hs rp rm.
             authorized en p bucketID getLimits nodes putLimits \<and> transferred en sn hs rp rm))"
proof (cases "\<exists>bucketID getLimits nodes putLimits sn hs.
                authorized en p bucketID getLimits nodes putLimits
                \<and> snd (ecGet en) = None \<and> ecRepair en = (sn, hs, None)")
  case True
  then obtain bucketID getLimits nodes putLimits sn hs
    where auth: "authorized en p bucketID getLimits nodes putLimits"
      and dl: "snd (ecGet en) = None" and ul: "ecRepair en = (sn, hs, None)"
    by blast
  let ?part = "partitionPieces (sliceToSet missing) emptyPartition pieces"
  let ?wU = "emit (ECRepair putLimits p)
          (snd (updateAuditFailStatus en (map NodeId (fst (ecGet en)))
            (emit (ECGet getLimits p)
              (emit (CreatePutRepairOrderLimits bucketID ptr getLimits nodes)
                (emit (FindStorageNodesForRepair
                         (requestCount ops repairer optimal (healthyPieces ?part))
                         (excludeNodeIDs ?part))
                  (emit (CreateGetRepairOrderLimits bucketID ptr (healthyPieces ?part))
                    (emit (FloatVal ''healthy_ratio_before_repair'') w)))))))"
  have run: "repairSegment ops en repairer p ptr optimal pieces missing w
      = deferClose en (commitRepair en p ptr ?part (fst (ecGet en)) sn hs ?wU)"
    using auth dl ul by (simp add: repairSegment_def authorized_def Let_def)
  have base: "db ?wU = db w" "filter isCommit (events ?wU) = filter isCommit (events w)"
    by simp_all
  show ?thesis
    using commitRepair_store [of en p ptr ?part "fst (ecGet en)" sn hs ?wU] auth dl ul
    by (auto simp add: run base transferred_def)
next
  case False
  then show ?thesis
    by (auto simp add: repairSegment_def authorized_def Let_def
          split: sum.splits option.splits error.splits prod.splits)
qed

lemma Repair_store:
  "(db (snd (Repair ops en repairer p w)) = db w
      \<and> (updateFault en = None \<longrightarrow>
           filter isCommit (events (snd (Repair ops en repairer p w)))
             = filter isCommit (events w)))
   \<or> (updateFault en = None
       \<and> (\<exists>ptr optimal missing bucketID getLimits nodes putLimits sn hs rp rm.
             admitted en w p ptr optimal missing \<and> needsRepair repairer ptr missing
             \<and> authorized en p bucketID getLimits nodes putLimits
             \<and> transferred en sn hs rp rm))"
proof (cases "\<exists>ptr optimal missing. admitted en w p ptr optimal missing
                \<and> needsRepair repairer ptr missing")
  case True
  then obtain ptr optimal missing
    where adm: "admitted en w p ptr optimal missing"
      and nr: "needsRepair repairer ptr missing"
    by blast
  show ?thesis
    using repairSegment_store
            [of ops en repairer p ptr optimal "RemotePieces (Remote ptr)" missing
                "queried p ptr w"] adm nr
    by (simp add: Repair_admitted [OF adm] checkHealth_needsRepair [OF nr] events_queried)
       blast
next
  case False
  then show ?thesis
    by (auto simp add: Repair_def metainfo_Get_def checkHealth_def admitted_def
          needsRepair_def Let_def
          split: sum.splits option.splits prod.splits)
qed

subsection \<open>The scenarios reach the steps they illustrate\<close>

lemma scenarioC_admitted:
  "admitted scenarioC (exampleWorld examplePointer) examplePath examplePointer 7 missingC"
  by code_simp

lemma scenarioC_needsRepair: "needsRepair exampleRepairer examplePointer missingC"
  by code_simp

lemma scenarioC_authorized: "authorized scenarioC examplePath ''prj/bkt'' 1 [300, 301, 302] 2"
  by code_simp

lemma scenarioC_transferred: "transferred scenarioC uploadsC hashesC repairedC {4, 5, 6}"
  by code_simp

lemma scenarioD_admitted:
  "admitted scenarioD (exampleWorld examplePointer) examplePath examplePointer 7 missingC"
  by code_simp

lemma scenarioD_authorized: "authorized scenarioD examplePath ''prj/bkt'' 1 [300, 301, 302] 2"
  by code_simp

lemma scenarioD_transferred: "transferred scenarioD uploadsD hashesD repairedD {4}"
  by code_simp




lemma wrap_admitted:
  "admitted scenarioC (exampleWorld wrapPointer) examplePath wrapPointer 7 missingC"
  by code_simp

lemma wrap_needsRepair: "needsRepair exampleRepairer wrapPointer missingC"
  by code_simp

section \<open>The claims\<close>







text \<open>
  C3. After a partial repair (\<open>healthyAfterRepair\<close> below \<open>successThreshold\<close>), an
  originally unhealthy piece is handed to the commit for removal exactly when its number
  is among the numbers of the newly uploaded pieces, and every originally unhealthy piece
  whose number is not among them is still in the stored pointer after the attempt. The
  pieces that fail verification come from the download, which reads healthy pieces only:
  their numbers are not among the missing ones.
\<close>

theorem partial_repair_keeps_unrepaired:
  assumes adm: "admitted en w p ptr optimal missing"
    and nr: "needsRepair repairer ptr missing"
    and auth: "authorized en p bucketID getLimits nodes putLimits"
    and tr: "transferred en successfulNodes hashes rp rm"
    and part: "sint (word_of_nat (length (healthyOf ptr missing) + length rp) :: int32)
                 < sint (SuccessThreshold (Redundancy (Remote ptr)))"
    and failed_healthy: "\<forall>f \<in> set (fst (ecGet en)). PieceNum f \<notin> set missing"
  shows "filter isCommit (newEvents w (snd (Repair ops en repairer p w))) =
           [UpdatePiecesCall p
              (ptr\<lparr>LastRepaired := nowCommit en, RepairCount := RepairCount ptr + 1\<rparr>) rp
              (filter (\<lambda>u. PieceNum u \<in> PieceNum ` set rp) (unhealthyOf ptr missing)
                 @ fst (ecGet en))]
       \<and> (\<forall>u \<in> set (unhealthyOf ptr missing).
             (PieceNum u \<in> PieceNum ` set
                (filter (\<lambda>u. PieceNum u \<in> PieceNum ` set rp) (unhealthyOf ptr missing)
                   @ fst (ecGet en))
              \<longleftrightarrow> PieceNum u \<in> PieceNum ` set rp)
           \<and> (PieceNum u \<notin> PieceNum ` set rp \<longrightarrow>
                (\<exists>q. db (snd (Repair ops en repairer p w)) p = Some q
                   \<and> u \<in> set (RemotePieces (Remote q)))))"
proof -
  let ?toRemove = "filter (\<lambda>u. PieceNum u \<in> PieceNum ` set rp) (unhealthyOf ptr missing)
                     @ fst (ecGet en)"
  have rem: "piecesToRemove ptr (word_of_nat (length (healthyOf ptr missing) + length rp))
               (unhealthyOf ptr missing) (PieceNum ` set rp) (fst (ecGet en)) = ?toRemove"
    using part by (simp add: piecesToRemove_def)
  have ev: "filter isCommit (newEvents w (snd (Repair ops en repairer p w))) =
           [UpdatePiecesCall p
              (ptr\<lparr>LastRepaired := nowCommit en, RepairCount := RepairCount ptr + 1\<rparr>) rp
              ?toRemove]"
    by (simp add: Repair_commit_events [OF adm nr auth tr] rem del: of_nat_add split: option.splits)
  have inptr: "db w p = Some ptr"
    using adm by (simp add: admitted_def)
  have each: "(PieceNum u \<in> PieceNum ` set ?toRemove \<longleftrightarrow> PieceNum u \<in> PieceNum ` set rp)
           \<and> (PieceNum u \<notin> PieceNum ` set rp \<longrightarrow>
                (\<exists>q. db (snd (Repair ops en repairer p w)) p = Some q
                   \<and> u \<in> set (RemotePieces (Remote q))))"
    if u: "u \<in> set (unhealthyOf ptr missing)" for u
  proof -
    have lost: "PieceNum u \<in> set missing" and here: "u \<in> set (RemotePieces (Remote ptr))"
      using u by (simp_all add: unhealthyOf_def)
    have notfailed: "PieceNum u \<notin> PieceNum ` set (fst (ecGet en))"
      using failed_healthy lost by auto
    have iff: "PieceNum u \<in> PieceNum ` set ?toRemove \<longleftrightarrow> PieceNum u \<in> PieceNum ` set rp"
      using notfailed u by auto
    have stays: "\<exists>q. db (snd (Repair ops en repairer p w)) p = Some q
                   \<and> u \<in> set (RemotePieces (Remote q))"
      if "PieceNum u \<notin> PieceNum ` set rp"
      using that iff here inptr
      by (cases "updateFault en")
         (auto simp add: Repair_commit_db [OF adm nr auth tr] rem committedPointer_def
            removePieces_def simp del: of_nat_add)
    show ?thesis using iff stays by blast
  qed
  show ?thesis
    using ev each by blast
qed

theorem partial_repair_keeps_unrepaired_witness:
  "admitted scenarioD (exampleWorld examplePointer) examplePath examplePointer 7 missingC
   \<and> needsRepair exampleRepairer examplePointer missingC
   \<and> authorized scenarioD examplePath ''prj/bkt'' 1 [300, 301, 302] 2
   \<and> transferred scenarioD uploadsD hashesD repairedD {4}
   \<and> sint (word_of_nat (length (healthyOf examplePointer missingC) + length repairedD)
              :: int32)
       < sint (SuccessThreshold (Redundancy (Remote examplePointer)))
   \<and> fst (ecGet scenarioD) = []
   \<and> examplePiece 5 \<in> set (unhealthyOf examplePointer missingC)
   \<and> PieceNum (examplePiece 5) \<notin> PieceNum ` set repairedD
   \<and> (\<exists>q. db (snd (Repair exactOps scenarioD exampleRepairer examplePath
                       (exampleWorld examplePointer))) examplePath = Some q
          \<and> examplePiece 5 \<in> set (RemotePieces (Remote q)))"
proof -
  have part: "sint (word_of_nat (length (healthyOf examplePointer missingC) + length repairedD)
              :: int32)
       < sint (SuccessThreshold (Redundancy (Remote examplePointer)))"
    by code_simp
  have fromHealthy: "\<forall>f \<in> set (fst (ecGet scenarioD)). PieceNum f \<notin> set missingC"
    by code_simp
  have lost: "examplePiece 5 \<in> set (unhealthyOf examplePointer missingC)"
    by code_simp
  have unrepaired: "PieceNum (examplePiece 5) \<notin> PieceNum ` set repairedD"
    by code_simp
  have noneFailed: "fst (ecGet scenarioD) = []"
    by code_simp
  show ?thesis
    using partial_repair_keeps_unrepaired
            [OF scenarioD_admitted scenarioC_needsRepair scenarioD_authorized
                scenarioD_transferred part fromHealthy, of exactOps]
          scenarioD_admitted scenarioC_needsRepair scenarioD_authorized
          scenarioD_transferred part noneFailed lost unrepaired
    by blast
qed

text \<open>
  C4. For every pointer (fetched, remote, unexpired, of valid redundancy, missing-piece
  query answered) with \<open>numHealthy < minRequired\<close>, \<open>Repair\<close> returns \<open>true\<close> and an
  irreparable error whose available count is \<open>numHealthy\<close> and whose required count is
  the scheme's \<open>minRequired\<close>; the store is unchanged and no collaborator is called
  after the missing-piece query, so there is no upload and no commit. \<open>numHealthy\<close> is
  taken to fit \<open>int32\<close> from below, as it does whenever the directory reports no more
  missing pieces than the pointer has pieces.
\<close>

theorem irreparable_below_minimum:
  assumes adm: "admitted en w p ptr optimal missing"
    and lo: "- (2 ^ 31) \<le> numHealthy (RemotePieces (Remote ptr)) missing"
    and below: "numHealthy (RemotePieces (Remote ptr)) missing
                  < sint (MinReq (Redundancy (Remote ptr)))"
  shows "fst (Repair ops en repairer p w) =
           Returned True (Some (Irreparable
             \<lparr> ie_path = p,
               piecesAvailable = word_of_int (numHealthy (RemotePieces (Remote ptr)) missing),
               piecesRequired = MinReq (Redundancy (Remote ptr)),
               segmentInfo = Some ptr \<rparr>))
         \<and> sint (word_of_int (numHealthy (RemotePieces (Remote ptr)) missing) :: int32)
             = numHealthy (RemotePieces (Remote ptr)) missing
         \<and> db (snd (Repair ops en repairer p w)) = db w
         \<and> filter collaboratorCall (newEvents w (snd (Repair ops en repairer p w)))
             = [MetainfoGet p, GetMissingPieces (RemotePieces (Remote ptr))]"
proof -
  let ?n = "numHealthy (RemotePieces (Remote ptr)) missing"
  have "?n < 2 ^ 31"
    using below sint_int32_bounds [of "MinReq (Redundancy (Remote ptr))"] by linarith
  with lo have exact: "sint (word_of_int ?n :: int32) = ?n"
    by (rule sint_int32_of_int)
  have run: "Repair ops en repairer p w =
      (Returned True (Some (Irreparable
             \<lparr> ie_path = p, piecesAvailable = word_of_int ?n,
               piecesRequired = MinReq (Redundancy (Remote ptr)),
               segmentInfo = Some ptr \<rparr>)),
       emit (Meter ''repair_nodes_unavailable'') (queried p ptr w))"
    using below exact by (simp add: Repair_admitted [OF adm] checkHealth_def Let_def)
  show ?thesis
    using exact by (simp add: run newEvents_def events_queried)
qed

theorem irreparable_below_minimum_witness:
  "admitted (exampleEnv [2, 3, 4, 5, 6, 7, 8, 9] [] []) (exampleWorld examplePointer)
     examplePath examplePointer 7 [2, 3, 4, 5, 6, 7, 8, 9]
   \<and> - (2 ^ 31) \<le> numHealthy (RemotePieces (Remote examplePointer)) [2, 3, 4, 5, 6, 7, 8, 9]
   \<and> numHealthy (RemotePieces (Remote examplePointer)) [2, 3, 4, 5, 6, 7, 8, 9]
       < sint (MinReq (Redundancy (Remote examplePointer)))
   \<and> fst (Repair exactOps (exampleEnv [2, 3, 4, 5, 6, 7, 8, 9] [] []) exampleRepairer
            examplePath (exampleWorld examplePointer)) =
       Returned True (Some (Irreparable
         \<lparr> ie_path = examplePath, piecesAvailable = 2, piecesRequired = 3,
           segmentInfo = Some examplePointer \<rparr>))"
proof -
  have h1: "admitted (exampleEnv [2, 3, 4, 5, 6, 7, 8, 9] [] []) (exampleWorld examplePointer)
     examplePath examplePointer 7 [2, 3, 4, 5, 6, 7, 8, 9]"
    by (simp add: admitted_def exampleEnv_def exampleWorld_def examplePointer_def)
  have n: "numHealthy (RemotePieces (Remote examplePointer)) [2, 3, 4, 5, 6, 7, 8, 9] = 2"
    by (simp add: numHealthy_def examplePointer_def)
  have m: "MinReq (Redundancy (Remote examplePointer)) = 3"
    by (simp add: examplePointer_def exampleScheme_def)
  have h2: "- (2 ^ 31) \<le> numHealthy (RemotePieces (Remote examplePointer)) [2, 3, 4, 5, 6, 7, 8, 9]"
    by (simp add: n)
  have h3: "numHealthy (RemotePieces (Remote examplePointer)) [2, 3, 4, 5, 6, 7, 8, 9]
       < sint (MinReq (Redundancy (Remote examplePointer)))"
    by (simp add: n m)
  show ?thesis
    using irreparable_below_minimum [OF h1 h2 h3, of exactOps exampleRepairer] h1
    by (simp add: n m)
qed

text \<open>
  C5. An attempt that reaches the transfer (pointer admitted, repair needed, scope and
  authorizations and nodes granted) classifies a failure by its phase: when the download
  reports the irreparable condition, \<open>Repair\<close> returns \<open>true\<close> and that irreparable
  error, carrying the pointer; when the download fails otherwise, it returns \<open>true\<close> and
  a reconstruction error; when the download succeeds and the upload fails, it returns
  \<open>false\<close> and the put error (joined with the error of closing the reader, if any), so
  the segment stays in the queue.
\<close>

theorem transfer_failures_by_phase:
  assumes adm: "admitted en w p ptr optimal missing"
    and nr: "needsRepair repairer ptr missing"
    and auth: "authorized en p bucketID getLimits nodes putLimits"
  shows "(\<forall>ie. snd (ecGet en) = Some (Irreparable ie) \<longrightarrow>
            fst (Repair ops en repairer p w) =
              Returned True (Some (Irreparable (ie\<lparr>segmentInfo := Some ptr\<rparr>))))
       \<and> (\<forall>err. snd (ecGet en) = Some err \<longrightarrow> (\<forall>ie. err \<noteq> Irreparable ie) \<longrightarrow>
            fst (Repair ops en repairer p w) =
              Returned True (Some (ClassError repairReconstructError (Some err))))
       \<and> (\<forall>err. snd (ecGet en) = None \<longrightarrow> snd (snd (ecRepair en)) = Some err \<longrightarrow>
            fst (Repair ops en repairer p w) =
              Returned False (Some
                (case readerClose en of
                   None \<Rightarrow> ClassError repairPutError (Some err)
                 | Some c \<Rightarrow> CombinedError (ClassError repairPutError (Some err)) c)))"
  using auth
  by (auto simp add: Repair_admitted [OF adm] checkHealth_needsRepair [OF nr] repairSegment_def
        authorized_def Let_def deferClose_def split: error.splits option.splits prod.splits)

theorem transfer_failures_by_phase_witness:
  "admitted irreparableDownload (exampleWorld examplePointer) examplePath examplePointer 7
     missingC
   \<and> admitted brokenDownload (exampleWorld examplePointer) examplePath examplePointer 7
       missingC
   \<and> admitted brokenUpload (exampleWorld examplePointer) examplePath examplePointer 7 missingC
   \<and> needsRepair exampleRepairer examplePointer missingC
   \<and> authorized irreparableDownload examplePath ''prj/bkt'' 1 [300, 301, 302] 2
   \<and> authorized brokenDownload examplePath ''prj/bkt'' 1 [300, 301, 302] 2
   \<and> authorized brokenUpload examplePath ''prj/bkt'' 1 [300, 301, 302] 2
   \<and> fst (Repair exactOps irreparableDownload exampleRepairer examplePath
            (exampleWorld examplePointer))
       = Returned True (Some (Irreparable
           \<lparr> ie_path = examplePath, piecesAvailable = 2, piecesRequired = 3,
             segmentInfo = Some examplePointer \<rparr>))
   \<and> fst (Repair exactOps brokenDownload exampleRepairer examplePath
            (exampleWorld examplePointer))
       = Returned True (Some (ClassError repairReconstructError (Some (ExternalError 7))))
   \<and> fst (Repair exactOps brokenUpload exampleRepairer examplePath
            (exampleWorld examplePointer))
       = Returned False (Some (ClassError repairPutError (Some (ExternalError 8))))"
proof -
  have a1: "admitted irreparableDownload (exampleWorld examplePointer) examplePath
              examplePointer 7 missingC"
    by code_simp
  have a2: "admitted brokenDownload (exampleWorld examplePointer) examplePath
              examplePointer 7 missingC"
    by code_simp
  have a3: "admitted brokenUpload (exampleWorld examplePointer) examplePath
              examplePointer 7 missingC"
    by code_simp
  have b1: "authorized irreparableDownload examplePath ''prj/bkt'' 1 [300, 301, 302] 2"
    by code_simp
  have b2: "authorized brokenDownload examplePath ''prj/bkt'' 1 [300, 301, 302] 2"
    by code_simp
  have b3: "authorized brokenUpload examplePath ''prj/bkt'' 1 [300, 301, 302] 2"
    by code_simp
  have d1: "snd (ecGet irreparableDownload) = Some (Irreparable
           \<lparr> ie_path = examplePath, piecesAvailable = 2, piecesRequired = 3,
             segmentInfo = None \<rparr>)"
    by (simp add: irreparableDownload_def)
  have d2: "snd (ecGet brokenDownload) = Some (ExternalError 7)"
    by (simp add: brokenDownload_def)
  have d3: "snd (ecGet brokenUpload) = None \<and> snd (snd (ecRepair brokenUpload))
              = Some (ExternalError 8) \<and> readerClose brokenUpload = None"
    by (simp add: brokenUpload_def scenarioC_def exampleEnv_def)
  have r1: "fst (Repair exactOps irreparableDownload exampleRepairer examplePath
            (exampleWorld examplePointer))
       = Returned True (Some (Irreparable
           \<lparr> ie_path = examplePath, piecesAvailable = 2, piecesRequired = 3,
             segmentInfo = Some examplePointer \<rparr>))"
    using transfer_failures_by_phase [OF a1 scenarioC_needsRepair b1, of exactOps] d1
    by simp
  have r2: "fst (Repair exactOps brokenDownload exampleRepairer examplePath
            (exampleWorld examplePointer))
       = Returned True (Some (ClassError repairReconstructError (Some (ExternalError 7))))"
    using transfer_failures_by_phase [OF a2 scenarioC_needsRepair b2, of exactOps] d2
    by simp
  have r3: "fst (Repair exactOps brokenUpload exampleRepairer examplePath
            (exampleWorld examplePointer))
       = Returned False (Some (ClassError repairPutError (Some (ExternalError 8))))"
    using transfer_failures_by_phase [OF a3 scenarioC_needsRepair b3, of exactOps] d3
    by simp
  show ?thesis
    using a1 a2 a3 b1 b2 b3 scenarioC_needsRepair r1 r2 r3 by blast
qed

text \<open>
  C6. After a successful upload the class of the outcome is marked on a meter and nothing
  else depends on it: in every class the commit is called, and the returned pair is a
  function of the answers of the store and of the reader's close alone, \<open>(true, _)\<close>
  when the store accepts and \<open>(false, err)\<close> when it does not. In particular, when
  \<open>healthyAfterRepair\<close> is at or under \<open>repairThreshold\<close> the class is "failed", the
  commit still proceeds, and \<open>Repair\<close> returns \<open>retire = true\<close> once the store accepts.
\<close>

theorem classification_is_observability_only:
  assumes adm: "admitted en w p ptr optimal missing"
    and nr: "needsRepair repairer ptr missing"
    and auth: "authorized en p bucketID getLimits nodes putLimits"
    and tr: "transferred en successfulNodes hashes rp rm"
  shows "Meter (classify ptr (word_of_nat (length (healthyOf ptr missing) + length rp)))
           \<in> set (newEvents w (snd (Repair ops en repairer p w)))
       \<and> list_ex isCommit (newEvents w (snd (Repair ops en repairer p w)))
       \<and> fst (Repair ops en repairer p w) =
           (case updateFault en of
              None \<Rightarrow> Returned True (readerClose en)
            | Some err \<Rightarrow>
                Returned False
                  (Combine (Some (ClassError metainfoPutError (Some err))) (readerClose en)))
       \<and> (sint (word_of_nat (length (healthyOf ptr missing) + length rp) :: int32)
             \<le> sint (RepairThreshold (Redundancy (Remote ptr))) \<longrightarrow>
           classify ptr (word_of_nat (length (healthyOf ptr missing) + length rp))
             = ''repair_failed''
           \<and> (updateFault en = None \<longrightarrow>
                committed en w (snd (Repair ops en repairer p w))
                \<and> fst (Repair ops en repairer p w) = Returned True (readerClose en)))"
  by (simp add: Repair_commit_result [OF adm nr auth tr] Repair_commit_events [OF adm nr auth tr]
        classify_failed committed_def)

theorem classification_is_observability_only_witness:
  "admitted scenarioD (exampleWorld examplePointer) examplePath examplePointer 7 missingC
   \<and> needsRepair exampleRepairer examplePointer missingC
   \<and> authorized scenarioD examplePath ''prj/bkt'' 1 [300, 301, 302] 2
   \<and> transferred scenarioD uploadsD hashesD repairedD {4}
   \<and> sint (word_of_nat (length (healthyOf examplePointer missingC) + length repairedD)
              :: int32)
       \<le> sint (RepairThreshold (Redundancy (Remote examplePointer)))
   \<and> updateFault scenarioD = None
   \<and> classify examplePointer
        (word_of_nat (length (healthyOf examplePointer missingC) + length repairedD))
       = ''repair_failed''
   \<and> committed scenarioD (exampleWorld examplePointer)
        (snd (Repair exactOps scenarioD exampleRepairer examplePath
                (exampleWorld examplePointer)))
   \<and> fst (Repair exactOps scenarioD exampleRepairer examplePath (exampleWorld examplePointer))
       = Returned True (readerClose scenarioD)"
proof -
  have under: "sint (word_of_nat (length (healthyOf examplePointer missingC) + length repairedD)
              :: int32)
       \<le> sint (RepairThreshold (Redundancy (Remote examplePointer)))"
    by code_simp
  have ok: "updateFault scenarioD = None"
    by code_simp
  show ?thesis
    using classification_is_observability_only
            [OF scenarioD_admitted scenarioC_needsRepair scenarioD_authorized
                scenarioD_transferred, of exactOps]
          scenarioD_admitted scenarioC_needsRepair scenarioD_authorized
          scenarioD_transferred under ok
    by blast
qed



text \<open>
  C8 (as amended). On every execution of \<open>Repair\<close> that ends in a successful commit, the
  committed pointer's \<open>repairCount\<close> is the fetched pointer's plus one in \<open>int32\<close>
  arithmetic, which is strictly greater whenever the fetched count is below the largest
  \<open>int32\<close>, and its \<open>lastRepairedTime\<close> is the commit time; on every execution that
  returns without a successful commit the store is unchanged.
\<close>

theorem commit_updates_repair_count_and_time:
  "(committed en w (snd (Repair ops en repairer p w)) \<longrightarrow>
      (\<exists>ptr q toAdd toRemove. db w p = Some ptr
         \<and> filter isCommit (newEvents w (snd (Repair ops en repairer p w)))
             = [UpdatePiecesCall p
                  (ptr\<lparr>LastRepaired := nowCommit en, RepairCount := RepairCount ptr + 1\<rparr>)
                  toAdd toRemove]
         \<and> db (snd (Repair ops en repairer p w)) = (db w)(p \<mapsto> q)
         \<and> RepairCount q = RepairCount ptr + 1
         \<and> LastRepaired q = nowCommit en
         \<and> (sint (RepairCount ptr) < 2 ^ 31 - 1 \<longrightarrow>
              sint (RepairCount ptr) < sint (RepairCount q))))
   \<and> (\<not> committed en w (snd (Repair ops en repairer p w)) \<longrightarrow>
        db (snd (Repair ops en repairer p w)) = db w)"
proof -
  let ?w' = "snd (Repair ops en repairer p w)"
  consider
    (quiet) "db ?w' = db w"
      "updateFault en = None \<longrightarrow> filter isCommit (events ?w') = filter isCommit (events w)"
  | (commit) ptr optimal missing bucketID getLimits nodes putLimits sn hs rp rm
      where "updateFault en = None" "admitted en w p ptr optimal missing"
        "needsRepair repairer ptr missing"
        "authorized en p bucketID getLimits nodes putLimits" "transferred en sn hs rp rm"
    using Repair_store [of ops en repairer p w] by blast
  then show ?thesis
  proof cases
    case quiet
    have "updateFault en = None \<longrightarrow> filter isCommit (newEvents w ?w') = []"
      using quiet(2) events_Repair [of ops en repairer p w]
      by (metis append_self_conv filter_append)
    then have "\<not> committed en w ?w'"
      by (auto simp add: committed_def list_ex_iff filter_empty_conv)
    then show ?thesis using quiet(1) by simp
  next
    case commit
    have inptr: "db w p = Some ptr"
      using commit(2) by (simp add: admitted_def)
    have store: "db ?w' = (db w)(p \<mapsto> committedPointer
                   (ptr\<lparr>LastRepaired := nowCommit en, RepairCount := RepairCount ptr + 1\<rparr>) rp
                   (piecesToRemove ptr
                      (word_of_nat (length (healthyOf ptr missing) + length rp))
                      (unhealthyOf ptr missing) (PieceNum ` set rp) (fst (ecGet en))))"
      by (simp add: Repair_commit_db [OF commit(2-5)] commit(1) del: of_nat_add)
    have is_committed: "committed en w ?w'"
      by (simp add: committed_def commit(1) Repair_commit_events [OF commit(2-5)])
    have call: "filter isCommit (newEvents w ?w')
             = [UpdatePiecesCall p
                  (ptr\<lparr>LastRepaired := nowCommit en, RepairCount := RepairCount ptr + 1\<rparr>)
                  rp
                  (piecesToRemove ptr
                     (word_of_nat (length (healthyOf ptr missing) + length rp))
                     (unhealthyOf ptr missing) (PieceNum ` set rp) (fst (ecGet en)))]"
      by (simp add: commit(1) Repair_commit_events [OF commit(2-5)] del: of_nat_add)
    have count: "RepairCount (committedPointer
                   (ptr\<lparr>LastRepaired := nowCommit en, RepairCount := RepairCount ptr + 1\<rparr>) rp
                   (piecesToRemove ptr
                      (word_of_nat (length (healthyOf ptr missing) + length rp))
                      (unhealthyOf ptr missing) (PieceNum ` set rp) (fst (ecGet en))))
                 = RepairCount ptr + 1"
      and time: "LastRepaired (committedPointer
                   (ptr\<lparr>LastRepaired := nowCommit en, RepairCount := RepairCount ptr + 1\<rparr>) rp
                   (piecesToRemove ptr
                      (word_of_nat (length (healthyOf ptr missing) + length rp))
                      (unhealthyOf ptr missing) (PieceNum ` set rp) (fst (ecGet en))))
                 = nowCommit en"
      by (simp_all add: committedPointer_def)
    have grows: "sint (RepairCount ptr) < 2 ^ 31 - 1 \<longrightarrow>
                   sint (RepairCount ptr) < sint (RepairCount ptr + 1)"
      using sint_int32_succ [of "RepairCount ptr"] by simp
    show ?thesis
      using inptr store is_committed call count time grows by metis
  qed
qed

theorem commit_updates_repair_count_and_time_witness:
  "committed scenarioC (exampleWorld examplePointer)
     (snd (Repair exactOps scenarioC exampleRepairer examplePath (exampleWorld examplePointer)))
   \<and> db (exampleWorld examplePointer) examplePath = Some examplePointer
   \<and> sint (RepairCount examplePointer) < 2 ^ 31 - 1
   \<and> (\<exists>q. db (snd (Repair exactOps scenarioC exampleRepairer examplePath
                       (exampleWorld examplePointer)))
             = (db (exampleWorld examplePointer))(examplePath \<mapsto> q)
         \<and> RepairCount q = RepairCount examplePointer + 1
         \<and> LastRepaired q = nowCommit scenarioC
         \<and> sint (RepairCount examplePointer) < sint (RepairCount q))
   \<and> \<not> committed scenarioA (exampleWorld examplePointer)
        (snd (Repair exactOps scenarioA exampleRepairer examplePath
                (exampleWorld examplePointer)))
   \<and> db (snd (Repair exactOps scenarioA exampleRepairer examplePath
                (exampleWorld examplePointer)))
       = db (exampleWorld examplePointer)"
proof -
  have ok: "updateFault scenarioC = None"
    by code_simp
  have c: "committed scenarioC (exampleWorld examplePointer)
     (snd (Repair exactOps scenarioC exampleRepairer examplePath (exampleWorld examplePointer)))"
    by (simp add: committed_def ok
          Repair_commit_events [OF scenarioC_admitted scenarioC_needsRepair scenarioC_authorized
            scenarioC_transferred] del: of_nat_add)
  have n: "\<not> committed scenarioA (exampleWorld examplePointer)
        (snd (Repair exactOps scenarioA exampleRepairer examplePath
                (exampleWorld examplePointer)))"
    by code_simp
  have stored: "db (exampleWorld examplePointer) examplePath = Some examplePointer"
    by code_simp
  have small: "sint (RepairCount examplePointer) < 2 ^ 31 - 1"
    by code_simp
  obtain ptr q toAdd toRemove
    where fetched: "db (exampleWorld examplePointer) examplePath = Some ptr"
    and after: "db (snd (Repair exactOps scenarioC exampleRepairer examplePath
                       (exampleWorld examplePointer)))
             = (db (exampleWorld examplePointer))(examplePath \<mapsto> q)"
      "RepairCount q = RepairCount ptr + 1" "LastRepaired q = nowCommit scenarioC"
      "sint (RepairCount ptr) < 2 ^ 31 - 1 \<longrightarrow> sint (RepairCount ptr) < sint (RepairCount q)"
    using commit_updates_repair_count_and_time
            [of scenarioC "exampleWorld examplePointer" exactOps exampleRepairer examplePath] c
    by blast
  have same: "ptr = examplePointer"
    using fetched stored by simp
  have quiet: "db (snd (Repair exactOps scenarioA exampleRepairer examplePath
                (exampleWorld examplePointer)))
       = db (exampleWorld examplePointer)"
    using commit_updates_repair_count_and_time
            [of scenarioA "exampleWorld examplePointer" exactOps exampleRepairer examplePath] n
    by blast
  show ?thesis
    using c stored small after same n quiet by blast
qed

text \<open>
  C8 as stated fails at the largest \<open>int32\<close>: the increment of line 316 wraps, and the
  committed count of a pointer fetched with \<open>repairCount = 2147483647\<close> is
  \<open>-2147483648\<close>.
\<close>

theorem repair_count_wraps_counterexample:
  "committed scenarioC (exampleWorld wrapPointer)
     (snd (Repair exactOps scenarioC exampleRepairer examplePath (exampleWorld wrapPointer)))
   \<and> map_option (sint \<circ> RepairCount) (db (exampleWorld wrapPointer) examplePath)
       = Some 2147483647
   \<and> map_option (sint \<circ> RepairCount)
        (db (snd (Repair exactOps scenarioC exampleRepairer examplePath
                    (exampleWorld wrapPointer))) examplePath)
       = Some (- 2147483648)"
proof -
  have ok: "updateFault scenarioC = None"
    by code_simp
  have before: "map_option (sint \<circ> RepairCount) (db (exampleWorld wrapPointer) examplePath)
       = Some 2147483647"
    by code_simp
  have wrapped: "sint (RepairCount wrapPointer + 1) = - 2147483648"
    by code_simp
  have c: "committed scenarioC (exampleWorld wrapPointer)
     (snd (Repair exactOps scenarioC exampleRepairer examplePath (exampleWorld wrapPointer)))"
    by (simp add: committed_def ok
          Repair_commit_events [OF wrap_admitted wrap_needsRepair scenarioC_authorized
            scenarioC_transferred] del: of_nat_add)
  have after: "map_option (sint \<circ> RepairCount)
        (db (snd (Repair exactOps scenarioC exampleRepairer examplePath
                    (exampleWorld wrapPointer))) examplePath)
       = Some (- 2147483648)"
    by (simp add: Repair_commit_db [OF wrap_admitted wrap_needsRepair scenarioC_authorized
            scenarioC_transferred] ok committedPointer_def wrapped del: of_nat_add)
  show ?thesis
    using c before after by blast
qed



text \<open>
  C10. The derivation of the authorization scope fails exactly when the path splits into
  fewer than three components, and \<open>Repair\<close>, once it has found that the segment needs
  repair, then returns \<open>true\<close> and an invalid-repair error; with three or more
  components it succeeds and the scope is the join of the first and the third component,
  so that paths which agree on these two have the same scope.
\<close>

theorem bucket_id_needs_three_components:
  "(isl (createBucketID en p) \<longleftrightarrow> length (SplitPath en p) < 3)
   \<and> (3 \<le> length (SplitPath en p) \<longrightarrow>
        createBucketID en p = Inr (JoinPaths en [SplitPath en p ! 0, SplitPath en p ! 2]))
   \<and> (admitted en w p ptr optimal missing \<and> needsRepair repairer ptr missing
        \<and> length (SplitPath en p) < 3 \<longrightarrow>
        fst (Repair ops en repairer p w) =
          Returned True (Some (ClassError invalidRepairError (Some (ClassError Error None)))))
   \<and> (\<forall>en' p'. JoinPaths en' = JoinPaths en
          \<and> 3 \<le> length (SplitPath en p) \<and> 3 \<le> length (SplitPath en' p')
          \<and> SplitPath en' p' ! 0 = SplitPath en p ! 0
          \<and> SplitPath en' p' ! 2 = SplitPath en p ! 2 \<longrightarrow>
          createBucketID en' p' = createBucketID en p)"
proof -
  have fails: "fst (Repair ops en repairer p w) =
          Returned True (Some (ClassError invalidRepairError (Some (ClassError Error None))))"
    if adm: "admitted en w p ptr optimal missing" and nr: "needsRepair repairer ptr missing"
      and short: "length (SplitPath en p) < 3"
    using short
    by (simp add: Repair_admitted [OF adm] checkHealth_needsRepair [OF nr] repairSegment_def
          createBucketID_def Let_def)
  show ?thesis
    using fails by (auto simp add: createBucketID_def Let_def)
qed

theorem bucket_id_needs_three_components_witness:
  "admitted scenarioC shortWorld shortPath examplePointer 7 missingC
   \<and> admitted scenarioC (exampleWorld examplePointer) examplePath examplePointer 7 missingC
   \<and> needsRepair exampleRepairer examplePointer missingC
   \<and> length (SplitPath scenarioC shortPath) < 3
   \<and> isl (createBucketID scenarioC shortPath)
   \<and> fst (Repair exactOps scenarioC exampleRepairer shortPath shortWorld)
       = Returned True (Some (ClassError invalidRepairError (Some (ClassError Error None))))
   \<and> 3 \<le> length (SplitPath scenarioC examplePath)
   \<and> SplitPath scenarioC examplePath = [''prj'', ''s0'', ''bkt'', ''obj'']
   \<and> createBucketID scenarioC examplePath = Inr ''prj/bkt''"
proof -
  have a: "admitted scenarioC shortWorld shortPath examplePointer 7 missingC"
    by code_simp
  have short: "length (SplitPath scenarioC shortPath) < 3"
    by code_simp
  have long: "3 \<le> length (SplitPath scenarioC examplePath)"
    by code_simp
  have comps: "SplitPath scenarioC examplePath = [''prj'', ''s0'', ''bkt'', ''obj'']"
    by code_simp
  have joined: "JoinPaths scenarioC [SplitPath scenarioC examplePath ! 0,
                                     SplitPath scenarioC examplePath ! 2] = ''prj/bkt''"
    by code_simp
  have fails: "isl (createBucketID scenarioC shortPath)
     \<and> fst (Repair exactOps scenarioC exampleRepairer shortPath shortWorld)
       = Returned True (Some (ClassError invalidRepairError (Some (ClassError Error None))))"
    using bucket_id_needs_three_components
            [of scenarioC shortPath shortWorld examplePointer 7 missingC exampleRepairer
                exactOps]
          a scenarioC_needsRepair short
    by blast
  have succeeds: "createBucketID scenarioC examplePath = Inr ''prj/bkt''"
    using bucket_id_needs_three_components
            [of scenarioC examplePath "exampleWorld examplePointer" examplePointer 7 missingC
                exampleRepairer exactOps]
          long joined
    by simp
  show ?thesis
    using a scenarioC_admitted scenarioC_needsRepair short long comps fails succeeds by blast
qed

end
